theory Spec2Isabelle
  imports Complex_Main "HOL-Library.Sublist" "HOL-Library.Multiset"
begin

section \<open>Values read from the environment, the request and the snapshot\<close>

text \<open>
  The handlers of \<^verbatim>\<open>app.py\<close> convert strings to integers with \<^verbatim>\<open>int(...)\<close> inside
  \<^verbatim>\<open>try/except\<close>. An environment variable or query parameter is modelled by what that
  conversion meets: the parameter is not there (the default given to \<^verbatim>\<open>get\<close> is
  converted instead), it is there and \<^verbatim>\<open>int\<close> raises, or it is there and \<^verbatim>\<open>int\<close> returns
  a number.
\<close>

datatype intarg = Missing | Garbled | Num int

datatype error = ValueError | DbError | OverflowError | NotFound

fun parse_int :: "intarg \<Rightarrow> int \<Rightarrow> error + int" where
  "parse_int Missing d = Inr d"
| "parse_int Garbled d = Inl ValueError"
| "parse_int (Num n) d = Inr n"

text \<open>
  The string-valued keys of a wallet dictionary (\<^verbatim>\<open>wallet\<close>, \<^verbatim>\<open>address\<close>, \<^verbatim>\<open>user\<close>,
  \<^verbatim>\<open>worker\<close>) are read with \<^verbatim>\<open>u.get(k)\<close>: \<open>None\<close> stands for a missing key or the
  value \<^verbatim>\<open>None\<close>, \<open>Some s\<close> for the string \<open>s\<close>. Python's \<^verbatim>\<open>or\<close> and \<^verbatim>\<open>and\<close> return one
  of their operands, chosen by truthiness; the empty string is falsy.
\<close>

fun truthy :: "string option \<Rightarrow> bool" where
  "truthy None = False"
| "truthy (Some s) = (s \<noteq> [])"

definition py_or :: "string option \<Rightarrow> string option \<Rightarrow> string option" where
  "py_or a b = (if truthy a then a else b)"

definition py_and :: "string option \<Rightarrow> string option \<Rightarrow> string option" where
  "py_and a b = (if truthy a then b else a)"

text \<open>
  \<^verbatim>\<open>hashrate1m\<close> only ever goes through \<^verbatim>\<open>float(u.get("hashrate1m") or 0)\<close>. The key is
  modelled by the three ways this expression can go: the value is falsy (missing, \<^verbatim>\<open>None\<close>,
  zero, empty) and \<^verbatim>\<open>0\<close> is converted; the value is truthy and \<^verbatim>\<open>float\<close> converts it to a
  number; the value is truthy and \<^verbatim>\<open>float\<close> raises. Finite floats are modelled by the real
  number they denote.
\<close>

datatype hashrate = Falsy | Numeric real | NonNumeric

fun py_float :: "hashrate \<Rightarrow> error + real" where
  "py_float Falsy = Inr 0"
| "py_float (Numeric x) = Inr x"
| "py_float NonNumeric = Inl ValueError"

text \<open>
  A wallet dictionary of the snapshot. \<open>active_workers\<close> is \<open>Some ws\<close> when the key holds a
  list (\<^verbatim>\<open>isinstance(..., list)\<close>) and \<open>None\<close> otherwise. \<open>last_seen_ts\<close> and \<open>last_seen\<close>
  are the two keys that \<^verbatim>\<open>api_pool\<close> writes.
\<close>

record wallet_row =
  wallet :: "string option"
  address :: "string option"
  user :: "string option"
  worker :: "string option"
  hashrate1m :: hashrate
  active_workers :: "string list option"
  last_seen_ts :: "int option"
  last_seen :: "string option"

text \<open>
  The snapshot's \<^verbatim>\<open>users\<close> list holds references to dictionaries, and \<^verbatim>\<open>api_pool\<close>
  assigns to keys of those dictionaries. The store maps a reference to the dictionary it
  denotes; a users list is a list of references, in which a reference may occur twice.
\<close>

type_synonym ref = nat
type_synonym heap = "ref \<Rightarrow> wallet_row"

section \<open>The persistent store\<close>

text \<open>
  Rows of the tables \<^verbatim>\<open>workers_seen\<close> and \<^verbatim>\<open>wallet_history\<close>. \<open>None\<close> is SQL's
  \<^verbatim>\<open>NULL\<close> in the columns where the code provides for it.
\<close>

record worker_seen =
  ws_wallet :: "string option"
  ws_worker :: string
  ws_last_seen :: "int option"
  ws_active :: int

record history_row =
  wh_wallet :: string
  wh_ts :: int
  wh_hashrate :: "real option"

datatype query = QLastSeen | QCountWorkers | QSelectWorkers | QHistory

text \<open>
  A connection returned by \<^verbatim>\<open>get_db()\<close>: the two tables, and the statements on which
  \<^verbatim>\<open>conn.execute\<close> raises. \<^verbatim>\<open>get_db()\<close> itself may raise, so a handler receives
  \<open>error + conn\<close>.
\<close>

record conn =
  workers_seen :: "worker_seen list"
  wallet_history :: "history_row list"
  failing :: "query \<Rightarrow> bool"

text \<open>
  The four SQL statements of the handlers, by the meaning of their text.
  \<^verbatim>\<open>MAX\<close> skips \<^verbatim>\<open>NULL\<close> and is \<^verbatim>\<open>NULL\<close> on a group without a value; a comparison with
  \<^verbatim>\<open>NULL\<close> is not true; \<^verbatim>\<open>ORDER BY\<close> is a sort (the order among equal keys, which SQL
  leaves open, is the stable one); a negative \<^verbatim>\<open>LIMIT\<close> is no limit and a negative
  \<^verbatim>\<open>OFFSET\<close> is zero.
\<close>

fun sql_max :: "int option list \<Rightarrow> int option" where
  "sql_max [] = None"
| "sql_max (None # xs) = sql_max xs"
| "sql_max (Some x # xs) = (case sql_max xs of None \<Rightarrow> Some x | Some y \<Rightarrow> Some (max x y))"

definition sql_last_seen :: "worker_seen list \<Rightarrow> (string option \<times> int option) list" where
  \<comment> \<open>\<^verbatim>\<open>SELECT wallet, MAX(last_seen) as last_seen FROM workers_seen GROUP BY wallet\<close>\<close>
  "sql_last_seen t =
     map (\<lambda>w. (w, sql_max (map ws_last_seen (filter (\<lambda>r. ws_wallet r = w) t))))
         (remdups (map ws_wallet t))"

definition worker_cond :: "string \<Rightarrow> int \<Rightarrow> worker_seen \<Rightarrow> bool" where
  \<comment> \<open>\<^verbatim>\<open>WHERE wallet=? AND active=1 AND last_seen>=?\<close>\<close>
  "worker_cond w c r =
     (ws_wallet r = Some w \<and> ws_active r = 1 \<and>
      (case ws_last_seen r of None \<Rightarrow> False | Some t \<Rightarrow> t \<ge> c))"

definition sql_count_workers :: "worker_seen list \<Rightarrow> string \<Rightarrow> int \<Rightarrow> int" where
  \<comment> \<open>\<^verbatim>\<open>SELECT COUNT(*) FROM workers_seen WHERE wallet=? AND active=1 AND last_seen>=?\<close>\<close>
  "sql_count_workers t w c = int (length (filter (worker_cond w c) t))"

definition sql_limit_offset :: "int \<Rightarrow> int \<Rightarrow> 'a list \<Rightarrow> 'a list" where
  "sql_limit_offset n k xs =
     (if n < 0 then drop (nat k) xs else take (nat n) (drop (nat k) xs))"

definition worker_cols :: "string \<Rightarrow> int \<Rightarrow> worker_seen \<Rightarrow> (string \<times> int) list" where
  \<comment> \<open>the columns \<^verbatim>\<open>worker, last_seen\<close> of a row, when the row meets the \<^verbatim>\<open>WHERE\<close> clause\<close>
  "worker_cols w c r =
     (case ws_last_seen r of
        None \<Rightarrow> []
      | Some t \<Rightarrow> if ws_wallet r = Some w \<and> ws_active r = 1 \<and> t \<ge> c then [(ws_worker r, t)] else [])"

definition sql_select_workers ::
  "worker_seen list \<Rightarrow> string \<Rightarrow> int \<Rightarrow> int \<Rightarrow> int \<Rightarrow> (string \<times> int) list" where
  \<comment> \<open>\<^verbatim>\<open>SELECT worker, last_seen FROM workers_seen WHERE wallet=? AND active=1 AND
      last_seen>=? ORDER BY last_seen DESC LIMIT ? OFFSET ?\<close>\<close>
  "sql_select_workers t w c n k =
     sql_limit_offset n k (sort_key (\<lambda>p. - snd p) (concat (map (worker_cols w c) t)))"

definition sql_history :: "history_row list \<Rightarrow> string \<Rightarrow> int \<Rightarrow> (int \<times> real option) list" where
  \<comment> \<open>\<^verbatim>\<open>SELECT ts, hashrate FROM wallet_history WHERE wallet=? AND ts>=? ORDER BY ts ASC\<close>\<close>
  "sql_history t a c =
     sort_key fst
       (map (\<lambda>r. (wh_ts r, wh_hashrate r)) (filter (\<lambda>r. wh_wallet r = a \<and> wh_ts r \<ge> c) t))"

text \<open>
  \<^verbatim>\<open>conn.execute(sql, params)\<close>: the statement raises when the connection fails on it;
  otherwise its parameters are bound, and \<^verbatim>\<open>sqlite3\<close> raises \<^verbatim>\<open>OverflowError\<close> on a Python
  integer that does not fit SQLite's signed 64-bit \<^verbatim>\<open>INTEGER\<close> (a string is bound as it
  is); otherwise the rows are returned. \<open>params\<close> lists the integers bound.
\<close>

definition sqlite_int :: "int \<Rightarrow> bool" where
  "sqlite_int n = (- (2 ^ 63) \<le> n \<and> n < 2 ^ 63)"

definition execute :: "conn \<Rightarrow> query \<Rightarrow> int list \<Rightarrow> 'a \<Rightarrow> error + 'a" where
  "execute c q params rows =
     (if failing c q then Inl DbError
      else if list_all sqlite_int params then Inr rows
      else Inl OverflowError)"

section \<open>Helpers\<close>

text \<open>
  \<^verbatim>\<open>_find_wallet_row\<close>: the first dictionary of the snapshot whose \<^verbatim>\<open>wallet\<close>, or
  \<^verbatim>\<open>address\<close> when \<^verbatim>\<open>wallet\<close> is falsy, equals the argument.
\<close>

fun find_wallet_row :: "wallet_row list \<Rightarrow> string \<Rightarrow> wallet_row option" where
  "find_wallet_row [] w = None"
| "find_wallet_row (u # us) w =
     (if py_or (wallet u) (address u) = Some w then Some u else find_wallet_row us w)"

text \<open>
  \<^verbatim>\<open>wallet_last_seen_map\<close>: \<^verbatim>\<open>execute\<close> raising gives the empty dictionary; otherwise the
  rows are stored one by one, a row without a wallet being skipped.
\<close>

fun last_seen_rows ::
  "(string option \<times> int option) list \<Rightarrow> (string \<rightharpoonup> int option) \<Rightarrow> (string \<rightharpoonup> int option)" where
  "last_seen_rows [] out = out"
| "last_seen_rows ((w, ts) # rs) out =
     (case w of
        None \<Rightarrow> last_seen_rows rs out
      | Some k \<Rightarrow> last_seen_rows rs (out(k \<mapsto> ts)))"

definition wallet_last_seen_map :: "conn \<Rightarrow> (string \<rightharpoonup> int option)" where
  "wallet_last_seen_map c =
     (case execute c QLastSeen [] (sql_last_seen (workers_seen c)) of
        Inl e \<Rightarrow> Map.empty
      | Inr rows \<Rightarrow> last_seen_rows rows Map.empty)"

section \<open>\<^verbatim>\<open>/api/pool\<close>\<close>

definition wallet_key :: "wallet_row \<Rightarrow> string option" where
  \<comment> \<open>\<^verbatim>\<open>u.get("wallet") or u.get("address") or
      (u.get("user") and str(u.get("user")).split('.', 1)[0])\<close>\<close>
  "wallet_key u =
     py_or (py_or (wallet u) (address u))
           (py_and (user u) (map_option (takeWhile (\<lambda>c. c \<noteq> CHR ''.'')) (user u)))"

definition dict_get :: "('k \<rightharpoonup> 'v option) \<Rightarrow> 'k \<Rightarrow> 'v option" where
  \<comment> \<open>\<^verbatim>\<open>d.get(k)\<close> on a dictionary whose values may be \<^verbatim>\<open>None\<close>\<close>
  "dict_get d k = (case d k of None \<Rightarrow> None | Some v \<Rightarrow> v)"

definition lookup_last_ts :: "(string \<rightharpoonup> int option) \<Rightarrow> wallet_row \<Rightarrow> int option" where
  "lookup_last_ts last_map u =
     (case wallet_key u of
        None \<Rightarrow> None
      | Some w \<Rightarrow> if w \<noteq> [] then dict_get last_map w else None)"

text \<open>
  The two assignments \<^verbatim>\<open>u["last_seen_ts"] = ...\<close> and \<^verbatim>\<open>u["last_seen"] = ...\<close>.
  \<open>fmt\<close> is \<^verbatim>\<open>time.strftime("%Y-%m-%dT%H:%M:%SZ", time.gmtime(t))\<close>, with \<open>None\<close> where it
  raises (the handler then stores \<^verbatim>\<open>None\<close>).
\<close>

definition annotate ::
  "(int \<Rightarrow> string option) \<Rightarrow> (string \<rightharpoonup> int option) \<Rightarrow> wallet_row \<Rightarrow> wallet_row" where
  "annotate fmt last_map u =
     (let last_ts = lookup_last_ts last_map u;
          u1 = u\<lparr>last_seen_ts := (case last_ts of
                                    None \<Rightarrow> None
                                  | Some t \<Rightarrow> if t \<noteq> 0 then Some t else None)\<rparr>
      in u1\<lparr>last_seen := (case last_seen_ts u1 of
                             None \<Rightarrow> None
                           | Some t \<Rightarrow> if t \<noteq> 0 then fmt t else None)\<rparr>)"

definition hashrate_positive :: "wallet_row \<Rightarrow> bool" where
  \<comment> \<open>\<^verbatim>\<open>float(u.get("hashrate1m") or 0) > 0\<close>, false when \<^verbatim>\<open>float\<close> raises\<close>
  "hashrate_positive u = (case py_float (hashrate1m u) of Inl e \<Rightarrow> False | Inr x \<Rightarrow> x > 0)"

definition has_active_workers :: "wallet_row \<Rightarrow> bool" where
  \<comment> \<open>\<^verbatim>\<open>isinstance(u.get("active_workers"), list) and len(u.get("active_workers")) > 0\<close>\<close>
  "has_active_workers u = (case active_workers u of None \<Rightarrow> False | Some ws \<Rightarrow> length ws > 0)"

definition keep :: "int \<Rightarrow> wallet_row \<Rightarrow> bool" where
  "keep cutoff u =
     (if (case last_seen_ts u of None \<Rightarrow> False | Some t \<Rightarrow> t \<ge> cutoff) then True
      else if hashrate_positive u then True
      else has_active_workers u)"

fun pool_loop ::
  "(int \<Rightarrow> string option) \<Rightarrow> (string \<rightharpoonup> int option) \<Rightarrow> int \<Rightarrow> heap \<Rightarrow> ref list \<Rightarrow> ref list
     \<Rightarrow> heap \<times> ref list" where
  "pool_loop fmt last_map cutoff h [] filtered = (h, filtered)"
| "pool_loop fmt last_map cutoff h (r # rs) filtered =
     (let h' = h(r := annotate fmt last_map (h r))
      in pool_loop fmt last_map cutoff h' rs
           (if keep cutoff (h' r) then filtered @ [r] else filtered))"

definition worker_timeout :: "intarg \<Rightarrow> int" where
  \<comment> \<open>\<^verbatim>\<open>int(os.getenv("WORKER_TIMEOUT", "300"))\<close>, 300 when it raises\<close>
  "worker_timeout env = (case parse_int env 300 of Inl e \<Rightarrow> 300 | Inr n \<Rightarrow> n)"

definition load_last_map :: "error + conn \<Rightarrow> (string \<rightharpoonup> int option)" where
  "load_last_map db = (case db of Inl e \<Rightarrow> Map.empty | Inr c \<Rightarrow> wallet_last_seen_map c)"

text \<open>
  \<^verbatim>\<open>api_pool\<close>, from the snapshot's users list to the list \<^verbatim>\<open>filtered\<close> that is stored
  under \<^verbatim>\<open>"users"\<close> in the copy \<^verbatim>\<open>out_snap\<close>. The result is the store after the loop and
  the references of \<^verbatim>\<open>filtered\<close>; the response lists the dictionaries these denote in
  that store (\<open>pool_users\<close>). The block height that follows the loop is stored under
  \<^verbatim>\<open>"pool"\<close> and does not touch the users.
\<close>

definition api_pool ::
  "(int \<Rightarrow> string option) \<Rightarrow> intarg \<Rightarrow> int \<Rightarrow> error + conn \<Rightarrow> heap \<Rightarrow> ref list
     \<Rightarrow> heap \<times> ref list" where
  "api_pool fmt env now db h users =
     (let timeout_s = worker_timeout env;
          cutoff = now - max 0 timeout_s;
          last_map = load_last_map db
      in pool_loop fmt last_map cutoff h users [])"


section \<open>\<^verbatim>\<open>/api/search\<close> and \<^verbatim>\<open>/api/user\<close>\<close>

text \<open>
  \<^verbatim>\<open>str.strip()\<close> and \<^verbatim>\<open>str.lower()\<close> on ASCII text: the whitespace characters are the
  codes 9 to 13, 28 to 31 and 32, and the letters \<^verbatim>\<open>A\<close> to \<^verbatim>\<open>Z\<close> move to \<^verbatim>\<open>a\<close> to \<^verbatim>\<open>z\<close>.
  \<^verbatim>\<open>x in s\<close> on strings is \<^const>\<open>sublist\<close>.
\<close>

definition is_space :: "char \<Rightarrow> bool" where
  "is_space c = ((of_char c :: nat) \<in> {9, 10, 11, 12, 13, 28, 29, 30, 31, 32})"

definition str_strip :: "string \<Rightarrow> string" where
  "str_strip s = rev (dropWhile is_space (rev (dropWhile is_space s)))"

definition lower_char :: "char \<Rightarrow> char" where
  "lower_char c =
     (if 65 \<le> (of_char c :: nat) \<and> (of_char c :: nat) \<le> 90
      then char_of ((of_char c :: nat) + 32) else c)"

definition str_lower :: "string \<Rightarrow> string" where
  "str_lower s = map lower_char s"

definition or_empty :: "string option \<Rightarrow> string" where
  \<comment> \<open>\<^verbatim>\<open>x or ""\<close>\<close>
  "or_empty x = (case py_or x (Some []) of None \<Rightarrow> [] | Some s \<Rightarrow> s)"

definition fields :: "wallet_row \<Rightarrow> string list" where
  "fields u = [or_empty (address u), or_empty (wallet u), or_empty (user u), or_empty (worker u)]"

definition any_field :: "string \<Rightarrow> wallet_row \<Rightarrow> bool" where
  \<comment> \<open>\<^verbatim>\<open>any(ql in str(f).lower() for f in fields if f)\<close>\<close>
  "any_field ql u = list_ex (\<lambda>f. sublist ql (str_lower f)) (filter (\<lambda>f. f \<noteq> []) (fields u))"

text \<open>
  \<^verbatim>\<open>api_search\<close>: the argument is \<^verbatim>\<open>request.args.get("q")\<close>; the result is the pair of
  \<^verbatim>\<open>"query"\<close> and \<^verbatim>\<open>"matches"\<close>.
\<close>

definition api_search :: "string option \<Rightarrow> wallet_row list \<Rightarrow> string \<times> wallet_row list" where
  "api_search arg users =
     (let q = str_strip (or_empty arg)
      in (q, if q \<noteq> [] then filter (any_field (str_lower q)) users else []))"

text \<open>
  \<^verbatim>\<open>api_user\<close>: \<^verbatim>\<open>abort(404)\<close> when \<^verbatim>\<open>_find_wallet_row\<close> found nothing. (The test
  \<^verbatim>\<open>not row\<close> is also true of an empty dictionary, which \<^verbatim>\<open>_find_wallet_row\<close> never
  returns: a dictionary it returns holds the key that matched.)
\<close>

definition api_user :: "wallet_row list \<Rightarrow> string \<Rightarrow> error + wallet_row" where
  "api_user users w =
     (case find_wallet_row users w of None \<Rightarrow> Inl NotFound | Some row \<Rightarrow> Inr row)"

section \<open>\<^verbatim>\<open>/api/wallet/<wallet>/workers\<close>\<close>

definition workers_limit :: "intarg \<Rightarrow> int" where
  \<comment> \<open>\<^verbatim>\<open>max(1, min(int(request.args.get("limit", 50)), 200))\<close>, 50 when it raises\<close>
  "workers_limit a = (case parse_int a 50 of Inl e \<Rightarrow> 50 | Inr n \<Rightarrow> max 1 (min n 200))"

definition workers_offset :: "intarg \<Rightarrow> int" where
  \<comment> \<open>\<^verbatim>\<open>max(0, int(request.args.get("offset", 0)))\<close>, 0 when it raises\<close>
  "workers_offset a = (case parse_int a 0 of Inl e \<Rightarrow> 0 | Inr n \<Rightarrow> max 0 n)"

text \<open>
  \<^verbatim>\<open>api_wallet_workers\<close>: the pair of \<^verbatim>\<open>"total"\<close> and \<^verbatim>\<open>"workers"\<close> (name and
  \<^verbatim>\<open>last_seen\<close> of each row). Any exception between \<^verbatim>\<open>get_db()\<close> and the second
  \<^verbatim>\<open>fetchall()\<close> sets both to their empty values. The first statement binds
  \<^verbatim>\<open>(wallet, now - timeout_s)\<close>, the second \<^verbatim>\<open>(wallet, now - timeout_s, limit, offset)\<close>.
\<close>

definition api_wallet_workers ::
  "intarg \<Rightarrow> intarg \<Rightarrow> intarg \<Rightarrow> int \<Rightarrow> error + conn \<Rightarrow> string \<Rightarrow> int \<times> (string \<times> int) list" where
  "api_wallet_workers limit_arg offset_arg env now db w =
     (let limit = workers_limit limit_arg;
          offset = workers_offset offset_arg;
          timeout_s = worker_timeout env
      in case db of
           Inl e \<Rightarrow> (0, [])
         | Inr c \<Rightarrow>
            (case execute c QCountWorkers [now - timeout_s]
                    (sql_count_workers (workers_seen c) w (now - timeout_s)) of
               Inl e \<Rightarrow> (0, [])
             | Inr tot \<Rightarrow>
                (case execute c QSelectWorkers [now - timeout_s, limit, offset]
                        (sql_select_workers (workers_seen c) w (now - timeout_s) limit offset) of
                   Inl e \<Rightarrow> (0, [])
                 | Inr rows \<Rightarrow> (tot, rows))))"

section \<open>The in-memory history and \<^verbatim>\<open>/api/history\<close>\<close>

text \<open>
  \<^verbatim>\<open>HISTORY\<close> is a \<^verbatim>\<open>defaultdict\<close> of \<^verbatim>\<open>deque(maxlen=HIST_WINDOW_SEC // max(1,
  SAMPLE_EVERY_SEC))\<close>. A deque is the list of its items, oldest first. \<^verbatim>\<open>append\<close> adds on
  the right and removes the leftmost item when the length then exceeds \<^verbatim>\<open>maxlen\<close>; the
  constructor raises on a negative \<^verbatim>\<open>maxlen\<close>.
\<close>

type_synonym series = "(int \<times> real) list"
type_synonym history = "string \<rightharpoonup> series"

definition deque_maxlen :: "int \<Rightarrow> int \<Rightarrow> int" where
  "deque_maxlen hist_window_sec sample_every_sec = hist_window_sec div max 1 sample_every_sec"

definition deque_append :: "int \<Rightarrow> 'a list \<Rightarrow> 'a \<Rightarrow> 'a list" where
  "deque_append maxlen d x =
     (let d' = d @ [x] in if int (length d') > maxlen then tl d' else d')"

text \<open>
  One pass of \<^verbatim>\<open>_bg_sampler\<close> over the snapshot's users at time \<open>ts\<close>. When
  \<^verbatim>\<open>HISTORY[addr]\<close> has to build a deque and the constructor raises, the exception leaves
  the \<^verbatim>\<open>for\<close> loop and is swallowed by the enclosing \<^verbatim>\<open>except\<close>: the pass ends with what it
  has stored so far.
\<close>

fun sampler_loop :: "int \<Rightarrow> int \<Rightarrow> wallet_row list \<Rightarrow> history \<Rightarrow> history" where
  "sampler_loop maxlen ts [] H = H"
| "sampler_loop maxlen ts (u # us) H =
     (case py_or (wallet u) (address u) of
        None \<Rightarrow> sampler_loop maxlen ts us H
      | Some addr \<Rightarrow>
          if addr = [] then sampler_loop maxlen ts us H
          else
            (let v = (case py_float (hashrate1m u) of Inl e \<Rightarrow> 0 | Inr x \<Rightarrow> x)
             in case H addr of
                  Some d \<Rightarrow> sampler_loop maxlen ts us (H(addr \<mapsto> deque_append maxlen d (ts, v)))
                | None \<Rightarrow>
                    if maxlen < 0 then H
                    else sampler_loop maxlen ts us (H(addr \<mapsto> deque_append maxlen [] (ts, v)))))"

text \<open>
  The sampler thread from the start of the process: \<^verbatim>\<open>HISTORY\<close> is empty, and every pass
  reads a snapshot at some time.
\<close>

fun sampler_run :: "int \<Rightarrow> (int \<times> wallet_row list) list \<Rightarrow> history \<Rightarrow> history" where
  "sampler_run maxlen [] H = H"
| "sampler_run maxlen ((ts, users) # ticks) H =
     sampler_run maxlen ticks (sampler_loop maxlen ts users H)"

definition history_window :: "intarg \<Rightarrow> int" where
  \<comment> \<open>\<^verbatim>\<open>int(request.args.get("window", str(6 * 3600)))\<close>, \<^verbatim>\<open>6 * 3600\<close> when it raises\<close>
  "history_window a = (case parse_int a (6 * 3600) of Inl e \<Rightarrow> 6 * 3600 | Inr n \<Rightarrow> n)"

definition memory_points :: "history \<Rightarrow> string \<Rightarrow> int \<Rightarrow> series" where
  \<comment> \<open>\<^verbatim>\<open>[(ts, v) for (ts, v) in HISTORY.get(addr, []) if ts >= cutoff]\<close>\<close>
  "memory_points H addr cutoff =
     filter (\<lambda>p. fst p \<ge> cutoff) (case H addr of None \<Rightarrow> [] | Some d \<Rightarrow> d)"

definition store_point :: "int \<times> real option \<Rightarrow> int \<times> real" where
  \<comment> \<open>\<^verbatim>\<open>(int(r[0]), float(r[1] or 0.0))\<close>\<close>
  "store_point r = (fst r, (case snd r of None \<Rightarrow> 0 | Some x \<Rightarrow> x))"

text \<open>
  \<^verbatim>\<open>api_history\<close>: the list \<^verbatim>\<open>"points"\<close>. The statement binds \<^verbatim>\<open>(addr, cutoff)\<close>; any
  exception of \<^verbatim>\<open>get_db()\<close> or of the statement is answered from \<^verbatim>\<open>HISTORY\<close>.
\<close>

definition api_history :: "intarg \<Rightarrow> int \<Rightarrow> error + conn \<Rightarrow> history \<Rightarrow> string \<Rightarrow> series" where
  "api_history window_arg now db H addr =
     (let window = history_window window_arg;
          cutoff = now - max 60 window
      in case db of
           Inl e \<Rightarrow> memory_points H addr cutoff
         | Inr c \<Rightarrow>
            (case execute c QHistory [cutoff] (sql_history (wallet_history c) addr cutoff) of
               Inl e \<Rightarrow> memory_points H addr cutoff
             | Inr rows \<Rightarrow> map store_point rows))"

section \<open>The specification's wording\<close>


text \<open>
  The specification's search match: one of the four fields contains the query, letter case
  ignored.
\<close>

definition spec_matches :: "string \<Rightarrow> wallet_row \<Rightarrow> bool" where
  "spec_matches query u =
     list_ex (\<lambda>f. sublist (str_lower query) (str_lower (or_empty f)))
             [address u, wallet u, user u, worker u]"

text \<open>
  The specification's total of the worker listing: the wallet's rows whose \<^verbatim>\<open>last_seen\<close>
  is within the staleness timeout.
\<close>

definition spec_total :: "worker_seen list \<Rightarrow> string \<Rightarrow> int \<Rightarrow> int \<Rightarrow> int" where
  "spec_total t w now timeoutSeconds =
     int (length (filter (\<lambda>r. ws_wallet r = Some w \<and>
                              (case ws_last_seen r of None \<Rightarrow> False
                               | Some x \<Rightarrow> x \<ge> now - timeoutSeconds)) t))"

section \<open>Concrete data\<close>

text \<open>
  Values at which the theorems below are evaluated: two wallets, one idle and one mining,
  three records that differ in which of \<^verbatim>\<open>wallet\<close> and \<^verbatim>\<open>address\<close> they carry, stores with
  rows for these wallets, and the formatter at the timestamps in use.
\<close>

definition example_fmt :: "int \<Rightarrow> string option" where
  "example_fmt t =
     (if t = 1699999990 then Some ''2023-11-14T22:13:10Z''
      else if t = 1700000050 then Some ''2023-11-14T22:14:10Z''
      else None)"

definition idle_row :: wallet_row where
  "idle_row =
     \<lparr>wallet = Some ''w1'', address = Some ''w1'', user = None, worker = None,
      hashrate1m = Falsy, active_workers = Some [], last_seen_ts = None, last_seen = None\<rparr>"

definition busy_row :: wallet_row where
  "busy_row =
     \<lparr>wallet = Some ''w2'', address = Some ''w2'', user = None, worker = None,
      hashrate1m = Numeric 12, active_workers = Some [''rig1''], last_seen_ts = None,
      last_seen = None\<rparr>"

definition alias_row :: wallet_row where
  "alias_row =
     \<lparr>wallet = None, address = Some ''w3'', user = None, worker = None,
      hashrate1m = Falsy, active_workers = None, last_seen_ts = None, last_seen = None\<rparr>"

definition blank_row :: wallet_row where
  "blank_row =
     \<lparr>wallet = Some [], address = Some ''w4'', user = None, worker = None,
      hashrate1m = Falsy, active_workers = None, last_seen_ts = None, last_seen = None\<rparr>"

definition split_row :: wallet_row where
  "split_row =
     \<lparr>wallet = Some ''w5'', address = Some ''a5'', user = None, worker = None,
      hashrate1m = Falsy, active_workers = None, last_seen_ts = None, last_seen = None\<rparr>"

definition example_heap :: heap where
  "example_heap r = (if r = 0 then idle_row else busy_row)"

definition no_fault :: "query \<Rightarrow> bool" where
  "no_fault q = False"

definition all_fault :: "query \<Rightarrow> bool" where
  "all_fault q = True"

definition seen_conn :: conn where
  "seen_conn =
     \<lparr>workers_seen =
        [\<lparr>ws_wallet = Some ''w1'', ws_worker = ''rig0'', ws_last_seen = Some 1699999990,
          ws_active = 1\<rparr>],
      wallet_history = [], failing = no_fault\<rparr>"


definition broken_conn :: conn where
  "broken_conn = \<lparr>workers_seen = [], wallet_history = [], failing = all_fault\<rparr>"

definition hist_conn :: conn where
  "hist_conn =
     \<lparr>workers_seen = [],
      wallet_history =
        [\<lparr>wh_wallet = ''w1'', wh_ts = 1699999000, wh_hashrate = Some 5\<rparr>,
         \<lparr>wh_wallet = ''w2'', wh_ts = 1699995000, wh_hashrate = Some 7\<rparr>,
         \<lparr>wh_wallet = ''w1'', wh_ts = 1699990000, wh_hashrate = None\<rparr>,
         \<lparr>wh_wallet = ''w1'', wh_ts = 1699900000, wh_hashrate = Some 3\<rparr>],
      failing = no_fault\<rparr>"

definition example_ticks :: "(int \<times> wallet_row list) list" where
  "example_ticks =
     [(1699999910, [busy_row]), (1699999970, [idle_row, busy_row]), (1700000000, [busy_row])]"

definition stale_flag_conn :: conn where
  "stale_flag_conn =
     \<lparr>workers_seen =
        [\<lparr>ws_wallet = Some ''w1'', ws_worker = ''rig0'', ws_last_seen = Some 1699999990,
          ws_active = 0\<rparr>],
      wallet_history = [], failing = no_fault\<rparr>"

definition rigs_conn :: conn where
  "rigs_conn =
     \<lparr>workers_seen =
        [\<lparr>ws_wallet = Some ''w1'', ws_worker = ''rig0'', ws_last_seen = Some 1699999990,
          ws_active = 1\<rparr>,
         \<lparr>ws_wallet = Some ''w1'', ws_worker = ''rig1'', ws_last_seen = Some 1699999995,
          ws_active = 1\<rparr>,
         \<lparr>ws_wallet = Some ''w2'', ws_worker = ''rig2'', ws_last_seen = Some 1699999999,
          ws_active = 1\<rparr>,
         \<lparr>ws_wallet = Some ''w1'', ws_worker = ''rig3'', ws_last_seen = Some 1699999980,
          ws_active = 1\<rparr>,
         \<lparr>ws_wallet = Some ''w1'', ws_worker = ''rig4'', ws_last_seen = Some 1699000000,
          ws_active = 1\<rparr>],
      wallet_history = [], failing = no_fault\<rparr>"


section \<open>Auxiliary definitions\<close>

text \<open>
  Every series is sorted by time and holds no point later than \<open>t\<close>; every series holds at
  most \<open>m\<close> points.
\<close>

definition series_ok :: "int \<Rightarrow> history \<Rightarrow> bool" where
  "series_ok t H =
     (\<forall>a d. H a = Some d \<longrightarrow> sorted (map fst d) \<and> (\<forall>p \<in> set d. fst p \<le> t))"

definition series_bounded :: "int \<Rightarrow> history \<Rightarrow> bool" where
  "series_bounded m H = (\<forall>a d. H a = Some d \<longrightarrow> int (length d) \<le> m)"

text \<open>
  The whole listing of a wallet's workers, before \<^verbatim>\<open>LIMIT\<close> and \<^verbatim>\<open>OFFSET\<close> cut a page
  out of it.
\<close>

definition all_workers :: "worker_seen list \<Rightarrow> string \<Rightarrow> int \<Rightarrow> (string \<times> int) list" where
  "all_workers t w c = sort_key (\<lambda>p. - snd p) (concat (map (worker_cols w c) t))"



section \<open>Properties of the \<^verbatim>\<open>/api/pool\<close> loop\<close>

lemma wallet_key_annotate: "wallet_key (annotate fmt lm u) = wallet_key u"
  by (simp add: wallet_key_def annotate_def Let_def)

lemma lookup_annotate: "lookup_last_ts lm' (annotate fmt lm u) = lookup_last_ts lm' u"
  by (simp add: lookup_last_ts_def wallet_key_annotate)

lemma annotate_idem: "annotate fmt lm (annotate fmt lm u) = annotate fmt lm u"
  unfolding annotate_def[of fmt lm "annotate fmt lm u"] lookup_annotate
  by (simp add: annotate_def Let_def)

lemma annotate_other_fields:
  "wallet (annotate fmt lm u) = wallet u"
  "address (annotate fmt lm u) = address u"
  "user (annotate fmt lm u) = user u"
  "worker (annotate fmt lm u) = worker u"
  "hashrate1m (annotate fmt lm u) = hashrate1m u"
  "active_workers (annotate fmt lm u) = active_workers u"
  by (simp_all add: annotate_def Let_def)

lemma last_seen_ts_annotate:
  "last_seen_ts (annotate fmt lm u) =
     (case lookup_last_ts lm u of None \<Rightarrow> None | Some t \<Rightarrow> if t \<noteq> 0 then Some t else None)"
  by (simp add: annotate_def Let_def)





text \<open>
  The loop writes the two keys into every dictionary of the list, and into no other; a
  dictionary listed twice is written twice with the same values.
\<close>

lemma pool_loop_heap:
  "fst (pool_loop fmt lm c h rs acc) =
     (\<lambda>r. if r \<in> set rs then annotate fmt lm (h r) else h r)"
proof (induction rs arbitrary: h acc)
  case Nil
  show ?case by simp
next
  case (Cons r rs)
  show ?case
    by (simp add: Let_def Cons.IH fun_eq_iff annotate_idem)
qed


lemma api_pool_heap:
  "fst (api_pool fmt env now db h users) =
     (\<lambda>r. if r \<in> set users then annotate fmt (load_last_map db) (h r) else h r)"
  by (simp add: api_pool_def Let_def pool_loop_heap)



section \<open>Properties of the sampler\<close>

lemma sorted_tl: "sorted xs \<Longrightarrow> sorted (tl xs)"
  by (cases xs) simp_all

lemma set_tl_subset: "x \<in> set (tl xs) \<Longrightarrow> x \<in> set xs"
  by (cases xs) simp_all

lemma deque_append_sorted:
  assumes "sorted (map fst d)" "\<forall>p \<in> set d. fst p \<le> t" "t \<le> ts"
  shows "sorted (map fst (deque_append m d (ts, v)))
         \<and> (\<forall>p \<in> set (deque_append m d (ts, v)). fst p \<le> ts)"
proof -
  have s: "sorted (map fst (d @ [(ts, v)]))"
    using assms by (fastforce simp: sorted_append)
  have b: "\<forall>p \<in> set (d @ [(ts, v)]). fst p \<le> ts"
    using assms by fastforce
  have "sorted (map fst (tl (d @ [(ts, v)])))"
    using s by (simp add: map_tl sorted_tl del: map_append)
  moreover have "\<forall>p \<in> set (tl (d @ [(ts, v)])). fst p \<le> ts"
    using b by (blast dest: set_tl_subset)
  ultimately show ?thesis
    using s b by (simp add: deque_append_def Let_def del: map_append)
qed

lemma series_ok_update:
  assumes "series_ok t H" "t \<le> ts" "d = (case H a of None \<Rightarrow> [] | Some d \<Rightarrow> d)"
  shows "series_ok ts (H(a \<mapsto> deque_append m d (ts, v)))"
proof -
  have d: "sorted (map fst d)" "\<forall>p \<in> set d. fst p \<le> t"
    using assms(1,3) by (fastforce simp: series_ok_def split: option.splits)+
  have old: "sorted (map fst d') \<and> (\<forall>p \<in> set d'. fst p \<le> ts)" if "H b = Some d'" for b d'
    using assms(1,2) that by (fastforce simp: series_ok_def)
  show ?thesis
    unfolding series_ok_def using deque_append_sorted[OF d assms(2)] old
    by (auto split: if_splits)
qed

lemma series_ok_mono: "series_ok t H \<Longrightarrow> t \<le> ts \<Longrightarrow> series_ok ts H"
  by (fastforce simp: series_ok_def)

lemma sampler_loop_ok:
  "series_ok ts H \<Longrightarrow> series_ok ts (sampler_loop m ts us H)"
proof (induction us arbitrary: H)
  case Nil
  then show ?case by simp
next
  case (Cons u us)
  show ?case
  proof (cases "py_or (wallet u) (address u)")
    case None
    then show ?thesis using Cons by simp
  next
    case (Some a)
    show ?thesis
    proof (cases "a = []")
      case True
      then show ?thesis using Some Cons by simp
    next
      case False
      show ?thesis
      proof (cases "H a")
        case None
        then show ?thesis
          using Some False Cons.prems
          by (auto simp: Let_def intro!: Cons.IH series_ok_update[where t = ts])
      next
        case (Some d)
        then show ?thesis
          using \<open>py_or (wallet u) (address u) = Some a\<close> False Cons.prems
          by (auto simp: Let_def intro!: Cons.IH series_ok_update[where t = ts])
      qed
    qed
  qed
qed

lemma sampler_run_ok:
  "series_ok t H \<Longrightarrow> sorted (map fst ticks) \<Longrightarrow> \<forall>k \<in> set ticks. t \<le> fst k
     \<Longrightarrow> \<exists>t'. series_ok t' (sampler_run m ticks H)"
proof (induction ticks arbitrary: t H)
  case Nil
  then show ?case by auto
next
  case (Cons k ticks)
  obtain ts us where k: "k = (ts, us)" by (cases k)
  have "series_ok ts H"
    using Cons.prems k by (auto intro: series_ok_mono)
  then have "series_ok ts (sampler_loop m ts us H)"
    by (rule sampler_loop_ok)
  moreover have "sorted (map fst ticks)" "\<forall>j \<in> set ticks. ts \<le> fst j"
    using Cons.prems k by auto
  ultimately show ?case
    using Cons.IH k by simp
qed

lemma memory_points_sorted:
  assumes "sorted (map fst ticks)"
  shows "sorted (map fst (memory_points (sampler_run m ticks Map.empty) addr cutoff))"
proof (cases ticks)
  case Nil
  then show ?thesis by (simp add: memory_points_def)
next
  case (Cons k ks)
  have "series_ok (fst k) Map.empty"
    by (simp add: series_ok_def)
  moreover have "\<forall>j \<in> set ticks. fst k \<le> fst j"
    using assms Cons by auto
  ultimately obtain t' where "series_ok t' (sampler_run m ticks Map.empty)"
    using sampler_run_ok assms by blast
  then show ?thesis
    by (auto simp: memory_points_def series_ok_def sorted_filter split: option.splits)
qed

text \<open>The bound on the length of a series, and what \<^verbatim>\<open>append\<close> does to a full one.\<close>

lemma deque_append_length:
  "0 \<le> m \<Longrightarrow> int (length d) \<le> m \<Longrightarrow> int (length (deque_append m d x)) \<le> m"
  by (simp add: deque_append_def Let_def)

lemma deque_append_full:
  "1 \<le> m \<Longrightarrow> int (length d) = m \<Longrightarrow> deque_append m d x = tl d @ [x]"
  by (cases d) (simp_all add: deque_append_def Let_def)

lemma deque_append_room: "int (length d) < m \<Longrightarrow> deque_append m d x = d @ [x]"
  by (simp add: deque_append_def Let_def)

lemma series_bounded_update:
  assumes "series_bounded m H" "0 \<le> m" "d = (case H a of None \<Rightarrow> [] | Some d \<Rightarrow> d)"
  shows "series_bounded m (H(a \<mapsto> deque_append m d x))"
proof -
  have "int (length d) \<le> m"
    using assms by (fastforce simp: series_bounded_def split: option.splits)
  then have "int (length (deque_append m d x)) \<le> m"
    using assms(2) by (simp add: deque_append_length)
  then show ?thesis
    using assms(1) by (auto simp: series_bounded_def)
qed

lemma series_bounded_nonneg: "series_bounded m H \<Longrightarrow> H a = Some d \<Longrightarrow> 0 \<le> m"
  by (fastforce simp: series_bounded_def)

lemma sampler_loop_bounded:
  "series_bounded m H \<Longrightarrow> series_bounded m (sampler_loop m ts us H)"
proof (induction us arbitrary: H)
  case Nil
  then show ?case by simp
next
  case (Cons u us)
  show ?case
  proof (cases "py_or (wallet u) (address u)")
    case None
    then show ?thesis using Cons by simp
  next
    case (Some a)
    show ?thesis
    proof (cases "a = []")
      case True
      then show ?thesis using Some Cons by simp
    next
      case False
      show ?thesis
      proof (cases "H a")
        case None
        then show ?thesis
          using Some False Cons.prems
          by (auto simp: Let_def intro!: Cons.IH series_bounded_update)
      next
        case (Some d)
        then have "0 \<le> m"
          using Cons.prems by (rule series_bounded_nonneg[rotated])
        then show ?thesis
          using Some \<open>py_or (wallet u) (address u) = Some a\<close> False Cons.prems
          by (auto simp: Let_def intro!: Cons.IH series_bounded_update)
      qed
    qed
  qed
qed

lemma sampler_run_bounded:
  "series_bounded m H \<Longrightarrow> series_bounded m (sampler_run m ticks H)"
proof (induction ticks arbitrary: H)
  case Nil
  then show ?case by simp
next
  case (Cons k ticks)
  obtain ts us where k: "k = (ts, us)" by (cases k)
  have "series_bounded m (sampler_loop m ts us H)"
    using Cons.prems by (rule sampler_loop_bounded)
  then have "series_bounded m (sampler_run m ticks (sampler_loop m ts us H))"
    by (rule Cons.IH)
  then show ?case by (simp add: k)
qed

lemma maxlen_pos: "1 \<le> deque_maxlen w s \<longleftrightarrow> max 1 s \<le> w"
proof -
  have "0 < max 1 s" by simp
  then have "0 < w div max 1 s \<longleftrightarrow> max 1 s \<le> w"
    by (rule pos_imp_zdiv_pos_iff)
  moreover have "1 \<le> w div max 1 s \<longleftrightarrow> 0 < w div max 1 s"
    by linarith
  ultimately show ?thesis
    unfolding deque_maxlen_def by (rule trans[rotated])
qed

section \<open>Claims\<close>

subsection \<open>C1: the pool view when the store is down\<close>




subsection \<open>C2: what the pool view writes into the snapshot\<close>

text \<open>
  C2, as stated: the wallet records of the snapshot are unchanged by the pool view. The
  handler assigns \<^verbatim>\<open>u["last_seen_ts"]\<close> and \<^verbatim>\<open>u["last_seen"]\<close> on the dictionaries of the
  snapshot's own list; the copy \<^verbatim>\<open>dict(snap)\<close> is made afterwards and is shallow. After a
  request, the idle wallet's dictionary holds the time the store reported.
\<close>

theorem api_pool_writes_snapshot:
  "fst (api_pool example_fmt Missing 1700000000 (Inr seen_conn) example_heap [0, 1]) 0
     \<noteq> example_heap 0"
proof -
  have "load_last_map (Inr seen_conn) ''w1'' = Some (Some 1699999990)"
    by (simp add: load_last_map_def wallet_last_seen_map_def execute_def seen_conn_def
                  no_fault_def sql_last_seen_def)
  then have "last_seen_ts
       (fst (api_pool example_fmt Missing 1700000000 (Inr seen_conn) example_heap [0, 1]) 0)
       = Some 1699999990"
    by (simp add: api_pool_heap last_seen_ts_annotate lookup_last_ts_def wallet_key_def
                  py_or_def py_and_def dict_get_def example_heap_def idle_row_def)
  moreover have "last_seen_ts (example_heap 0) = None"
    by (simp add: example_heap_def idle_row_def)
  ultimately show ?thesis by auto
qed

text \<open>
  C2, amended: the pool view writes \<^verbatim>\<open>last_seen_ts\<close> and \<^verbatim>\<open>last_seen\<close> into every wallet
  record of the snapshot it read, kept or not, and writes nothing else: every other field
  of every record is unchanged, and a record that is not in the snapshot's list is
  unchanged altogether.
\<close>

theorem api_pool_frame:
  "(r \<notin> set users \<longrightarrow> fst (api_pool fmt env now db h users) r = h r)
   \<and> (r \<in> set users \<longrightarrow>
        fst (api_pool fmt env now db h users) r = annotate fmt (load_last_map db) (h r))
   \<and> wallet (fst (api_pool fmt env now db h users) r) = wallet (h r)
   \<and> address (fst (api_pool fmt env now db h users) r) = address (h r)
   \<and> user (fst (api_pool fmt env now db h users) r) = user (h r)
   \<and> worker (fst (api_pool fmt env now db h users) r) = worker (h r)
   \<and> hashrate1m (fst (api_pool fmt env now db h users) r) = hashrate1m (h r)
   \<and> active_workers (fst (api_pool fmt env now db h users) r) = active_workers (h r)"
  by (simp add: api_pool_heap annotate_other_fields)

theorem api_pool_frame_witness:
  "(1::nat) \<notin> set [0]
   \<and> fst (api_pool example_fmt Missing 1700000000 (Inr seen_conn) example_heap [0]) 1 = busy_row
   \<and> (0::nat) \<in> set [0]
   \<and> hashrate1m (fst (api_pool example_fmt Missing 1700000000 (Inr seen_conn) example_heap [0]) 0)
       = Falsy"
  using api_pool_frame [of 1 "[0]" example_fmt Missing 1700000000 "Inr seen_conn" example_heap]
        api_pool_frame [of 0 "[0]" example_fmt Missing 1700000000 "Inr seen_conn" example_heap]
  by (simp add: example_heap_def idle_row_def annotate_other_fields)

subsection \<open>C3: the limit and offset of the worker listing\<close>

text \<open>
  C3, as stated: the requested limit is clamped into the range 10 to 200. The handler's
  lower bound is \<^verbatim>\<open>max(1, ...)\<close>: a requested limit of 5 stays 5.
\<close>

theorem workers_limit_below_ten: "workers_limit (Num 5) = 5 \<and> \<not> 10 \<le> workers_limit (Num 5)"
  by (simp add: workers_limit_def)

text \<open>
  C3, amended: for every requested value the limit lies between 1 and 200; a number
  below 1 becomes 1, a number above 200 becomes 200, any other number is kept, and a missing
  or unreadable parameter gives 50. The offset is never negative: a negative number
  becomes 0, any other number is kept, and a missing or unreadable parameter gives 0.
  These are the values bound to \<^verbatim>\<open>LIMIT\<close> and \<^verbatim>\<open>OFFSET\<close> of the listing: the limit can
  always be bound, and when neither statement fails the listing is the statement's rows for
  these two values, or empty when the offset or the staleness cutoff cannot be bound to a
  64-bit \<^verbatim>\<open>INTEGER\<close>.
\<close>

theorem workers_limit_offset_clamped:
  "1 \<le> workers_limit a \<and> workers_limit a \<le> 200
   \<and> workers_limit (Num n) = (if n < 1 then 1 else if 200 < n then 200 else n)
   \<and> workers_limit Missing = 50 \<and> workers_limit Garbled = 50
   \<and> 0 \<le> workers_offset b
   \<and> workers_offset (Num m) = (if m < 0 then 0 else m)
   \<and> workers_offset Missing = 0 \<and> workers_offset Garbled = 0
   \<and> sqlite_int (workers_limit a)
   \<and> (\<not> failing c QCountWorkers \<and> \<not> failing c QSelectWorkers \<longrightarrow>
        snd (api_wallet_workers a b env now (Inr c) w) =
          (if sqlite_int (now - worker_timeout env) \<and> sqlite_int (workers_offset b)
           then sql_select_workers (workers_seen c) w (now - worker_timeout env)
                                   (workers_limit a) (workers_offset b)
           else []))"
proof -
  have la: "1 \<le> workers_limit a \<and> workers_limit a \<le> 200"
    by (cases a) (simp_all add: workers_limit_def)
  have lb: "0 \<le> workers_offset b"
    by (cases b) (simp_all add: workers_offset_def)
  have nums: "workers_limit (Num n) = (if n < 1 then 1 else if 200 < n then 200 else n)"
             "workers_offset (Num m) = (if m < 0 then 0 else m)"
    by (simp_all add: workers_limit_def workers_offset_def)
  have dflt: "workers_limit Missing = 50" "workers_limit Garbled = 50"
             "workers_offset Missing = 0" "workers_offset Garbled = 0"
    by (simp_all add: workers_limit_def workers_offset_def)
  have bind: "sqlite_int (workers_limit a)"
    using la by (simp add: sqlite_int_def)
  have sel: "snd (api_wallet_workers a b env now (Inr c) w) =
          (if sqlite_int (now - worker_timeout env) \<and> sqlite_int (workers_offset b)
           then sql_select_workers (workers_seen c) w (now - worker_timeout env)
                                   (workers_limit a) (workers_offset b)
           else [])"
    if "\<not> failing c QCountWorkers" "\<not> failing c QSelectWorkers"
    using that bind by (simp add: api_wallet_workers_def Let_def execute_def)
  from la lb nums dflt bind sel show ?thesis by blast
qed

theorem workers_limit_offset_clamped_witness:
  "workers_limit (Num 1000) = 200 \<and> workers_limit (Num (- 3)) = 1
   \<and> workers_offset (Num (- 7)) = 0
   \<and> \<not> failing seen_conn QCountWorkers \<and> \<not> failing seen_conn QSelectWorkers
   \<and> snd (api_wallet_workers (Num 1000) (Num (- 7)) Missing 1700000000 (Inr seen_conn) ''w1'')
       = [(''rig0'', 1699999990)]
   \<and> \<not> sqlite_int (workers_offset (Num 9223372036854775808))
   \<and> snd (api_wallet_workers (Num 1000) (Num 9223372036854775808) Missing 1700000000
             (Inr seen_conn) ''w1'') = []"
proof -
  have ok: "\<not> failing seen_conn QCountWorkers" "\<not> failing seen_conn QSelectWorkers"
    by (simp_all add: seen_conn_def no_fault_def)
  have fits: "sqlite_int (1700000000 - worker_timeout Missing)"
             "sqlite_int (workers_offset (Num (- 7)))"
    by (simp_all add: sqlite_int_def worker_timeout_def workers_offset_def)
  have big: "\<not> sqlite_int (workers_offset (Num 9223372036854775808))"
    by (simp add: sqlite_int_def workers_offset_def)
  have sel: "sql_select_workers (workers_seen seen_conn) ''w1''
               (1700000000 - worker_timeout Missing) 200 0 = [(''rig0'', 1699999990)]"
    by (simp add: seen_conn_def sql_select_workers_def sql_limit_offset_def worker_cols_def
                  worker_timeout_def)
  from workers_limit_offset_clamped
         [of "Num 1000" 1000 "Num (- 7)" "- 7" seen_conn Missing 1700000000 "''w1''"]
       ok fits sel
  have p1: "workers_limit (Num 1000) = 200 \<and> workers_offset (Num (- 7)) = 0
     \<and> snd (api_wallet_workers (Num 1000) (Num (- 7)) Missing 1700000000 (Inr seen_conn) ''w1'')
         = [(''rig0'', 1699999990)]"
    by simp
  from workers_limit_offset_clamped [of "Num (- 3)" "- 3" Missing 0 seen_conn Missing 0 "[]"]
  have p2: "workers_limit (Num (- 3)) = 1"
    by simp
  from workers_limit_offset_clamped
         [of "Num 1000" 1000 "Num 9223372036854775808" 9223372036854775808 seen_conn Missing
             1700000000 "''w1''"]
       ok big
  have p3: "snd (api_wallet_workers (Num 1000) (Num 9223372036854775808) Missing 1700000000
             (Inr seen_conn) ''w1'') = []"
    by simp
  from p1 p2 p3 ok big show ?thesis by simp
qed

subsection \<open>C4: the capacity of a history series\<close>

text \<open>
  C4, as stated: the capacity is at least 1 for all configurations, and a sample appended
  to a full series drops exactly the oldest point. \<^verbatim>\<open>max(1, ...)\<close> guards the divisor, not
  the quotient: a window of 10 seconds sampled every 30 seconds gives capacity 0, and a
  sample appended to such a series is itself dropped.
\<close>

theorem history_capacity_zero:
  "deque_maxlen 10 30 = 0 \<and> \<not> 1 \<le> deque_maxlen 10 30
   \<and> sampler_loop (deque_maxlen 10 30) 1700000000 [busy_row] Map.empty ''w2'' = Some []"
proof -
  have z: "deque_maxlen 10 30 = 0"
    by (simp add: deque_maxlen_def)
  have "sampler_loop 0 1700000000 [busy_row] Map.empty ''w2'' = Some []"
    by (simp add: busy_row_def py_or_def deque_append_def)
  with z show ?thesis by simp
qed

text \<open>
  C4, amended: every series holds at most
  \<open>capacity = windowSeconds div max(1, sampleIntervalSeconds)\<close> points. The capacity is at
  least 1 exactly when \<open>windowSeconds \<ge> max(1, sampleIntervalSeconds)\<close>, not for every
  configuration. Where the capacity is at least 1, eviction is first in, first out:
  appending to a full series drops exactly the oldest point, and appending to a series
  that is not full drops nothing.
\<close>

theorem history_series_bounded_fifo:
  "(sampler_run (deque_maxlen w s) ticks Map.empty a = Some d
      \<longrightarrow> int (length d) \<le> deque_maxlen w s)
   \<and> (1 \<le> deque_maxlen w s \<longleftrightarrow> max 1 s \<le> w)
   \<and> (1 \<le> m \<and> int (length d') = m \<longrightarrow> deque_append m d' x = tl d' @ [x])
   \<and> (int (length d') < m \<longrightarrow> deque_append m d' x = d' @ [x])
   \<and> (py_or (wallet u) (address u) = Some k \<and> k \<noteq> [] \<and> H k = Some d' \<and> 1 \<le> m
        \<and> int (length d') = m
      \<longrightarrow> sampler_loop m ts [u] H k =
            Some (tl d' @ [(ts, case py_float (hashrate1m u) of Inl e \<Rightarrow> 0 | Inr v \<Rightarrow> v)]))"
proof -
  have "series_bounded (deque_maxlen w s) Map.empty"
    by (simp add: series_bounded_def)
  then have "series_bounded (deque_maxlen w s) (sampler_run (deque_maxlen w s) ticks Map.empty)"
    by (rule sampler_run_bounded)
  then have bound: "int (length d) \<le> deque_maxlen w s"
    if "sampler_run (deque_maxlen w s) ticks Map.empty a = Some d"
    using that by (simp add: series_bounded_def)
  have step: "sampler_loop m ts [u] H k =
            Some (tl d' @ [(ts, case py_float (hashrate1m u) of Inl e \<Rightarrow> 0 | Inr v \<Rightarrow> v)])"
    if "py_or (wallet u) (address u) = Some k" "k \<noteq> []" "H k = Some d'" "1 \<le> m"
       "int (length d') = m"
    using that by (simp add: Let_def deque_append_full)
  show ?thesis
    apply (intro conjI impI)
    subgoal by (rule bound)
    subgoal by (rule maxlen_pos)
    subgoal by (simp add: deque_append_full)
    subgoal by (rule deque_append_room)
    subgoal by (elim conjE) (rule step, assumption+)
    done
qed

theorem history_series_bounded_fifo_witness:
  "sampler_run (deque_maxlen 60 30) example_ticks Map.empty ''w2''
     = Some [(1699999970, 12), (1700000000, 12)]
   \<and> int (length [(1699999970 :: int, 12 :: real), (1700000000, 12)]) \<le> deque_maxlen 60 30
   \<and> 1 \<le> deque_maxlen 60 30 \<and> max 1 30 \<le> (60 :: int)
   \<and> int (length [(1699999910 :: int, 12 :: real), (1699999970, 12)]) = 2
   \<and> deque_append 2 [(1699999910 :: int, 12 :: real), (1699999970, 12)] (1700000000, 12)
       = [(1699999970, 12), (1700000000, 12)]"
proof -
  have cap: "deque_maxlen 60 30 = 2"
    by (simp add: deque_maxlen_def)
  have run: "sampler_run 2 example_ticks Map.empty ''w2''
               = Some [(1699999970, 12), (1700000000, 12)]"
    by (simp add: example_ticks_def busy_row_def idle_row_def py_or_def deque_append_def)
  have full: "(1 :: int) \<le> 2 \<and> int (length [(1699999910 :: int, 12 :: real), (1699999970, 12)]) = 2"
    by simp
  from history_series_bounded_fifo
         [of 60 30 example_ticks "''w2''" "[(1699999970, 12), (1700000000, 12)]" 2
             "[(1699999910, 12), (1699999970, 12)]" "(1700000000, 12)" busy_row "''w2''"
             Map.empty 1700000000]
       cap run full
  show ?thesis by simp
qed

subsection \<open>C5: which wallets the pool view keeps\<close>




subsection \<open>C6: wallet history\<close>

lemma sql_history_mset:
  "mset (map store_point (sql_history t a c)) =
     image_mset (\<lambda>r. (wh_ts r, case wh_hashrate r of None \<Rightarrow> 0 | Some x \<Rightarrow> x))
       (filter_mset (\<lambda>r. wh_wallet r = a \<and> c \<le> wh_ts r) (mset t))"
proof -
  let ?rows = "filter (\<lambda>r. wh_wallet r = a \<and> c \<le> wh_ts r) t"
  have "mset (map store_point (sql_history t a c)) =
          image_mset store_point (mset (sql_history t a c))"
    by simp
  also have "mset (sql_history t a c) = mset (map (\<lambda>r. (wh_ts r, wh_hashrate r)) ?rows)"
    unfolding sql_history_def by (rule mset_sort)
  also have "image_mset store_point (mset (map (\<lambda>r. (wh_ts r, wh_hashrate r)) ?rows)) =
          mset (map (\<lambda>r. (wh_ts r, case wh_hashrate r of None \<Rightarrow> 0 | Some x \<Rightarrow> x)) ?rows)"
    by (simp add: store_point_def comp_def image_mset.compositionality)
  also have "\<dots> = image_mset (\<lambda>r. (wh_ts r, case wh_hashrate r of None \<Rightarrow> 0 | Some x \<Rightarrow> x))
       (filter_mset (\<lambda>r. wh_wallet r = a \<and> c \<le> wh_ts r) (mset t))"
    by simp
  finally show ?thesis .
qed

lemma sql_history_sorted: "sorted (map fst (map store_point (sql_history t a c)))"
proof -
  have "map fst (map store_point (sql_history t a c)) = map fst (sql_history t a c)"
    by (simp add: store_point_def)
  then show ?thesis
    by (simp add: sql_history_def del: map_map)
qed

text \<open>
  C6: \<^verbatim>\<open>api_history\<close> asks the store first, with the cutoff \<open>now - max(60, window)\<close>,
  where \<open>window\<close> is the number requested (six hours when the parameter is missing or
  unreadable). When the statement succeeds the answer is the store's points of that wallet
  with \<open>ts \<ge> cutoff\<close>, each once, in ascending order of \<open>ts\<close>. When the store fails, that
  is when \<^verbatim>\<open>get_db()\<close> raises or the statement raises (on a fault of the store, or on a
  cutoff that cannot be bound to a 64-bit \<^verbatim>\<open>INTEGER\<close>), the answer is the wallet's points
  of the in-memory series with \<open>ts \<ge> cutoff\<close>, for the same cutoff, in the order of the
  series, which is oldest first (and sorted by \<open>ts\<close> when the sampler's clock never went
  back). The cutoff is never later than \<open>now - 60\<close> on either path.
\<close>

theorem api_history_store_first:
  "(\<not> failing c QHistory \<and> sqlite_int (now - max 60 (history_window a)) \<longrightarrow>
       mset (api_history a now (Inr c) H addr) =
         image_mset (\<lambda>r. (wh_ts r, case wh_hashrate r of None \<Rightarrow> 0 | Some x \<Rightarrow> x))
           (filter_mset (\<lambda>r. wh_wallet r = addr \<and> now - max 60 (history_window a) \<le> wh_ts r)
                        (mset (wallet_history c)))
     \<and> sorted (map fst (api_history a now (Inr c) H addr)))
   \<and> (failing c QHistory \<or> \<not> sqlite_int (now - max 60 (history_window a)) \<longrightarrow>
        api_history a now (Inr c) H addr =
          memory_points H addr (now - max 60 (history_window a)))
   \<and> api_history a now (Inl e) H addr = memory_points H addr (now - max 60 (history_window a))
   \<and> memory_points H addr cutoff =
        filter (\<lambda>p. cutoff \<le> fst p) (case H addr of None \<Rightarrow> [] | Some d \<Rightarrow> d)
   \<and> (sorted (map fst ticks) \<longrightarrow>
        sorted (map fst (memory_points (sampler_run m ticks Map.empty) addr cutoff)))
   \<and> now - max 60 (history_window a) \<le> now - 60
   \<and> history_window (Num n) = n
   \<and> history_window Missing = 21600 \<and> history_window Garbled = 21600
   \<and> now - max 60 (history_window (Num n)) = (if n < 60 then now - 60 else now - n)"
proof -
  let ?cut = "now - max 60 (history_window a)"
  have ok: "api_history a now (Inr c) H addr =
              map store_point (sql_history (wallet_history c) addr ?cut)"
    if "\<not> failing c QHistory" "sqlite_int ?cut"
    using that by (simp add: api_history_def Let_def execute_def)
  have bad: "api_history a now (Inr c) H addr = memory_points H addr ?cut"
    if "failing c QHistory \<or> \<not> sqlite_int ?cut"
    using that by (auto simp: api_history_def Let_def execute_def)
  have down: "api_history a now (Inl e) H addr = memory_points H addr ?cut"
    by (simp add: api_history_def Let_def)
  have mem: "memory_points H addr cutoff =
        filter (\<lambda>p. cutoff \<le> fst p) (case H addr of None \<Rightarrow> [] | Some d \<Rightarrow> d)"
    by (simp add: memory_points_def)
  have srt: "sorted (map fst (memory_points (sampler_run m ticks Map.empty) addr cutoff))"
    if "sorted (map fst ticks)"
    using that by (rule memory_points_sorted)
  have cut: "?cut \<le> now - 60"
    by simp
  have win: "history_window (Num n) = n" "history_window Missing = 21600"
            "history_window Garbled = 21600"
    by (simp_all add: history_window_def)
  have cutn: "now - max 60 (history_window (Num n)) = (if n < 60 then now - 60 else now - n)"
    by (simp add: history_window_def)
  have store: "mset (api_history a now (Inr c) H addr) =
         image_mset (\<lambda>r. (wh_ts r, case wh_hashrate r of None \<Rightarrow> 0 | Some x \<Rightarrow> x))
           (filter_mset (\<lambda>r. wh_wallet r = addr \<and> ?cut \<le> wh_ts r) (mset (wallet_history c)))
     \<and> sorted (map fst (api_history a now (Inr c) H addr))"
    if "\<not> failing c QHistory \<and> sqlite_int ?cut"
    using that ok sql_history_mset[of "wallet_history c" addr ?cut]
          sql_history_sorted[of "wallet_history c" addr ?cut]
    by simp
  from store bad down mem srt cut win cutn show ?thesis by blast
qed

theorem api_history_store_first_witness:
  "\<not> failing hist_conn QHistory
   \<and> sqlite_int (1700000000 - max 60 (history_window Missing))
   \<and> sorted (map fst (api_history Missing 1700000000 (Inr hist_conn) Map.empty ''w1''))
   \<and> api_history Missing 1700000000 (Inr hist_conn) Map.empty ''w1''
       = [(1699990000, 0), (1699999000, 5)]
   \<and> sqlite_int (1700000000 - max 60 (history_window (Num 3600)))
   \<and> api_history (Num 3600) 1700000000 (Inr hist_conn) Map.empty ''w1'' = [(1699999000, 5)]
   \<and> api_history (Num 200000) 1700000000 (Inr hist_conn) Map.empty ''w1''
       = [(1699900000, 3), (1699990000, 0), (1699999000, 5)]
   \<and> sqlite_int (1700000000 - max 60 (history_window (Num 9223372038554775808)))
   \<and> api_history (Num 9223372038554775808) 1700000000 (Inr hist_conn) Map.empty ''w1''
       = [(1699900000, 3), (1699990000, 0), (1699999000, 5)]
   \<and> failing broken_conn QHistory
   \<and> api_history (Num 10) 1700000000 (Inr broken_conn)
        (sampler_run 2880 example_ticks Map.empty) ''w2''
       = [(1699999970, 12), (1700000000, 12)]
   \<and> api_history (Num 100) 1700000000 (Inr broken_conn)
        (sampler_run 2880 example_ticks Map.empty) ''w2''
       = [(1699999910, 12), (1699999970, 12), (1700000000, 12)]
   \<and> \<not> sqlite_int (1700000000 - max 60 (history_window (Num 9223372038554775809)))
   \<and> api_history (Num 9223372038554775809) 1700000000 (Inr hist_conn)
        (sampler_run 2880 example_ticks Map.empty) ''w1''
       = [(1699999970, 0)]
   \<and> sorted (map fst example_ticks)
   \<and> sorted (map fst (memory_points (sampler_run 2880 example_ticks Map.empty) ''w2''
                         1699999940))"
proof -
  let ?H = "sampler_run 2880 example_ticks Map.empty"
  have ok: "\<not> failing hist_conn QHistory"
    by (simp add: hist_conn_def no_fault_def)
  have bad: "failing broken_conn QHistory"
    by (simp add: broken_conn_def all_fault_def)
  have win: "history_window Missing = 21600" "history_window (Num 3600) = 3600"
            "history_window (Num 200000) = 200000" "history_window (Num 10) = 10"
            "history_window (Num 100) = 100"
            "history_window (Num 9223372038554775809) = 9223372038554775809"
            "history_window (Num 9223372038554775808) = 9223372038554775808"
    by (simp_all add: history_window_def)
  have fits: "sqlite_int (1700000000 - max 60 (history_window Missing))"
             "sqlite_int (1700000000 - max 60 (history_window (Num 3600)))"
             "sqlite_int (1700000000 - max 60 (history_window (Num 200000)))"
             "sqlite_int (1700000000 - max 60 (history_window (Num 9223372038554775808)))"
    by (simp_all add: win sqlite_int_def)
  have big: "\<not> sqlite_int (1700000000 - max 60 (history_window (Num 9223372038554775809)))"
    by (simp add: win sqlite_int_def)
  have db: "api_history Missing 1700000000 (Inr hist_conn) Map.empty ''w1''
              = [(1699990000, 0), (1699999000, 5)]"
           "api_history (Num 3600) 1700000000 (Inr hist_conn) Map.empty ''w1''
              = [(1699999000, 5)]"
           "api_history (Num 200000) 1700000000 (Inr hist_conn) Map.empty ''w1''
              = [(1699900000, 3), (1699990000, 0), (1699999000, 5)]"
           "api_history (Num 9223372038554775808) 1700000000 (Inr hist_conn) Map.empty ''w1''
              = [(1699900000, 3), (1699990000, 0), (1699999000, 5)]"
    by code_simp+
  have H2: "?H ''w2'' = Some [(1699999910, 12), (1699999970, 12), (1700000000, 12)]"
    and H1: "?H ''w1'' = Some [(1699999970, 0)]"
    by (simp_all add: example_ticks_def busy_row_def idle_row_def py_or_def deque_append_def)
  have mem: "memory_points ?H ''w2'' (1700000000 - max 60 (history_window (Num 10)))
             = [(1699999970, 12), (1700000000, 12)]"
            "memory_points ?H ''w2'' (1700000000 - max 60 (history_window (Num 100)))
             = [(1699999910, 12), (1699999970, 12), (1700000000, 12)]"
            "memory_points ?H ''w1''
               (1700000000 - max 60 (history_window (Num 9223372038554775809)))
             = [(1699999970, 0)]"
    by (simp_all add: memory_points_def H1 H2 win)
  have clock: "sorted (map fst example_ticks)"
    by code_simp
  from api_history_store_first
         [of hist_conn 1700000000 Missing Map.empty "''w1''" DbError 0 example_ticks 2880 0]
       ok fits
  have s1: "sorted (map fst (api_history Missing 1700000000 (Inr hist_conn) Map.empty ''w1''))"
    by blast
  from api_history_store_first
         [of broken_conn 1700000000 "Num 10" ?H "''w2''" DbError 1699999940 example_ticks 2880 10]
       bad clock
  have s2: "api_history (Num 10) 1700000000 (Inr broken_conn) ?H ''w2''
            = memory_points ?H ''w2'' (1700000000 - max 60 (history_window (Num 10)))"
    and s3: "sorted (map fst (memory_points ?H ''w2'' 1699999940))"
    by blast+
  from api_history_store_first
         [of broken_conn 1700000000 "Num 100" ?H "''w2''" DbError 0 example_ticks 2880 100] bad
  have s4: "api_history (Num 100) 1700000000 (Inr broken_conn) ?H ''w2''
            = memory_points ?H ''w2'' (1700000000 - max 60 (history_window (Num 100)))"
    by blast
  from api_history_store_first
         [of hist_conn 1700000000 "Num 9223372038554775809" ?H "''w1''" DbError 0 example_ticks
             2880 0] big
  have s5: "api_history (Num 9223372038554775809) 1700000000 (Inr hist_conn) ?H ''w1''
            = memory_points ?H ''w1''
                (1700000000 - max 60 (history_window (Num 9223372038554775809)))"
    by blast
  from ok bad fits big db clock s1 s2 s3 s4 s5 mem show ?thesis by simp
qed

subsection \<open>C7: search\<close>

lemma str_lower_Nil: "str_lower q = [] \<longleftrightarrow> q = []"
  by (simp add: str_lower_def)

lemma any_field_spec:
  assumes "q \<noteq> []"
  shows "any_field (str_lower q) u = spec_matches q u"
proof -
  have e: "(f \<noteq> [] \<and> sublist (str_lower q) (str_lower f))
             = sublist (str_lower q) (str_lower f)" for f
    using assms by (cases f) (auto simp: str_lower_def)
  have "any_field (str_lower q) u =
          list_ex (\<lambda>f. f \<noteq> [] \<and> sublist (str_lower q) (str_lower f)) (fields u)"
    by (auto simp: any_field_def list_ex_iff)
  also have "\<dots> = list_ex (\<lambda>f. sublist (str_lower q) (str_lower f)) (fields u)"
    by (simp only: e)
  also have "\<dots> = spec_matches q u"
    by (simp add: spec_matches_def fields_def)
  finally show ?thesis .
qed

lemma str_strip_blank:
  assumes "\<forall>c \<in> set s. is_space c"
  shows "str_strip s = []"
proof -
  from assms have d: "dropWhile is_space s = []"
    by (induction s) simp_all
  show ?thesis unfolding str_strip_def d by simp
qed

text \<open>
  C7, as stated: for every non-empty query the matches are the records with a field that
  contains the query. The handler strips the query first: the query \<^verbatim>\<open>" w1"\<close> returns the
  wallet \<^verbatim>\<open>w1\<close>, none of whose fields contains \<^verbatim>\<open>" w1"\<close>.
\<close>

theorem api_search_strips_query:
  "snd (api_search (Some '' w1'') [idle_row]) = [idle_row]
   \<and> filter (spec_matches '' w1'') [idle_row] = []"
  by code_simp

text \<open>
  C7, amended: \<^verbatim>\<open>search\<close> strips leading and trailing whitespace from the query. When
  nothing is left (the query was missing, empty or all whitespace) the result is empty;
  otherwise the result is exactly the snapshot's records of which at least one of the
  address, wallet, user and worker fields contains the stripped query, letter case
  ignored, in snapshot order.
\<close>

theorem api_search_matches:
  "api_search arg users =
     (str_strip (or_empty arg),
      if str_strip (or_empty arg) = [] then []
      else filter (spec_matches (str_strip (or_empty arg))) users)
   \<and> ((\<forall>c \<in> set (or_empty arg). is_space c) \<longrightarrow> snd (api_search arg users) = [])"
proof -
  have main: "api_search arg users =
     (str_strip (or_empty arg),
      if str_strip (or_empty arg) = [] then []
      else filter (spec_matches (str_strip (or_empty arg))) users)"
    by (simp add: api_search_def Let_def any_field_spec cong: filter_cong)
  have "snd (api_search arg users) = []" if "\<forall>c \<in> set (or_empty arg). is_space c"
    using that by (simp add: main str_strip_blank)
  with main show ?thesis by blast
qed

theorem api_search_matches_witness:
  "list_all is_space (or_empty (Some ''  ''))
   \<and> snd (api_search (Some ''  '') [idle_row, busy_row]) = []
   \<and> api_search (Some ''W2 '') [idle_row, busy_row] = (''W2'', [busy_row])"
proof -
  have blank: "\<forall>c \<in> set (or_empty (Some ''  '')). is_space c"
    by code_simp
  have strip: "str_strip (or_empty (Some ''W2 '')) = ''W2''"
    by code_simp
  have hits: "filter (spec_matches ''W2'') [idle_row, busy_row] = [busy_row]"
    by code_simp
  from api_search_matches [of "Some ''  ''" "[idle_row, busy_row]"] blank
  have none: "snd (api_search (Some ''  '') [idle_row, busy_row]) = []"
    by blast
  from api_search_matches [of "Some ''W2 ''" "[idle_row, busy_row]"] strip hits
  have found: "api_search (Some ''W2 '') [idle_row, busy_row] = (''W2'', [busy_row])"
    by simp
  have "list_all is_space (or_empty (Some ''  ''))"
    by code_simp
  with none found show ?thesis by blast
qed

subsection \<open>C8: the page and the total of the worker listing\<close>

lemma length_worker_cols:
  "length (concat (map (worker_cols w c) t)) = length (filter (worker_cond w c) t)"
  by (induction t) (auto simp: worker_cols_def worker_cond_def split: option.splits)

lemma length_all_workers: "int (length (all_workers t w c)) = sql_count_workers t w c"
  by (simp add: all_workers_def sql_count_workers_def length_worker_cols)

lemma all_workers_desc: "sorted_wrt (\<lambda>x y. x \<ge> y) (map snd (all_workers t w c))"
proof -
  have "sorted (map (\<lambda>p. - snd p) (all_workers t w c))"
    unfolding all_workers_def by (rule sorted_sort_key)
  then show ?thesis
    by (simp add: sorted_wrt_map)
qed

lemma page_desc:
  "sorted_wrt (\<lambda>x y. x \<ge> y) (map snd (take n (drop k (all_workers t w c))))"
proof -
  have "sorted_wrt (\<lambda>x y. snd x \<ge> snd y) (all_workers t w c)"
    using all_workers_desc[of t w c] by (simp add: sorted_wrt_map)
  then have "sorted_wrt (\<lambda>x y. snd x \<ge> snd y) (take n (drop k (all_workers t w c)))"
    by (intro sorted_wrt_take sorted_wrt_drop)
  then show ?thesis by (simp add: sorted_wrt_map)
qed

lemma select_page:
  "0 \<le> n \<Longrightarrow> sql_select_workers t w c n k = take (nat n) (drop (nat k) (all_workers t w c))"
  by (simp add: sql_select_workers_def sql_limit_offset_def all_workers_def)

lemma worker_cols_mset:
  "mset (concat (map (worker_cols w c) t)) =
     image_mset (\<lambda>r. (ws_worker r, case ws_last_seen r of None \<Rightarrow> 0 | Some x \<Rightarrow> x))
       (filter_mset (\<lambda>r. ws_wallet r = Some w \<and> ws_active r = 1 \<and>
                          (case ws_last_seen r of None \<Rightarrow> False | Some x \<Rightarrow> c \<le> x))
                    (mset t))"
  by (induction t) (auto simp: worker_cols_def split: option.splits)

lemma all_workers_mset:
  "mset (all_workers t w c) =
     image_mset (\<lambda>r. (ws_worker r, case ws_last_seen r of None \<Rightarrow> 0 | Some x \<Rightarrow> x))
       (filter_mset (\<lambda>r. ws_wallet r = Some w \<and> ws_active r = 1 \<and>
                          (case ws_last_seen r of None \<Rightarrow> False | Some x \<Rightarrow> c \<le> x))
                    (mset t))"
  unfolding all_workers_def by (simp only: mset_sort worker_cols_mset)

lemma workers_limit_pos: "1 \<le> workers_limit a"
  by (cases a) (simp_all add: workers_limit_def)

text \<open>
  C8, as stated: \<^verbatim>\<open>total\<close> is the count of the wallet's workers whose \<^verbatim>\<open>last_seen\<close> is
  within the staleness timeout, whatever the limit and offset. Both statements of the
  handler also require \<^verbatim>\<open>active=1\<close>: a worker seen ten seconds ago whose flag is 0 is not
  counted. And the total does depend on the offset: an offset of \<open>2\<^sup>6\<^sup>3\<close> cannot be bound
  to the second statement, which raises, and the handler then answers \<^verbatim>\<open>total = 0\<close> for a
  wallet with three workers within the timeout.
\<close>

theorem api_wallet_workers_counts_active_only:
  "fst (api_wallet_workers Missing Missing Missing 1700000000 (Inr stale_flag_conn) ''w1'') = 0
   \<and> spec_total (workers_seen stale_flag_conn) ''w1'' 1700000000 (worker_timeout Missing) = 1
   \<and> fst (api_wallet_workers Missing (Num 9223372036854775808) Missing 1700000000
             (Inr rigs_conn) ''w1'') = 0
   \<and> fst (api_wallet_workers Missing Missing Missing 1700000000 (Inr rigs_conn) ''w1'') = 3
   \<and> spec_total (workers_seen rigs_conn) ''w1'' 1700000000 (worker_timeout Missing) = 3"
  by (simp add: api_wallet_workers_def Let_def execute_def stale_flag_conn_def rigs_conn_def
                no_fault_def sql_count_workers_def worker_cond_def spec_total_def
                worker_timeout_def workers_limit_def workers_offset_def sqlite_int_def)

text \<open>
  C8, amended: when the store answers, that is when \<^verbatim>\<open>get_db()\<close> returns and neither
  statement raises (no fault of the store, and the offset and the cutoff
  \<open>now - timeout\<close> fit a 64-bit \<^verbatim>\<open>INTEGER\<close>), \<^verbatim>\<open>total\<close> is the number of the wallet's rows
  with \<^verbatim>\<open>active = 1\<close> and \<^verbatim>\<open>last_seen \<ge> now - timeout\<close>, the same for every limit and
  every offset that can be bound; the workers returned are at most \<^verbatim>\<open>limit\<close> entries (the
  clamped limit) of the listing of those rows, starting at \<^verbatim>\<open>offset\<close>, in descending
  order of \<^verbatim>\<open>last_seen\<close>. Otherwise \<^verbatim>\<open>total\<close> is 0 and no worker is returned. The timeout
  is the number in \<^verbatim>\<open>WORKER_TIMEOUT\<close>, and 300 when that is missing or unreadable.
\<close>

theorem api_wallet_workers_page:
  "(\<not> failing c QCountWorkers \<and> \<not> failing c QSelectWorkers
      \<and> sqlite_int (now - worker_timeout env) \<and> sqlite_int (workers_offset oa) \<longrightarrow>
       fst (api_wallet_workers la oa env now (Inr c) w) =
         int (length (filter (\<lambda>r. ws_wallet r = Some w \<and> ws_active r = 1 \<and>
                                   (case ws_last_seen r of None \<Rightarrow> False
                                    | Some x \<Rightarrow> now - worker_timeout env \<le> x))
                             (workers_seen c)))
     \<and> fst (api_wallet_workers la oa env now (Inr c) w) =
         int (length (all_workers (workers_seen c) w (now - worker_timeout env)))
     \<and> snd (api_wallet_workers la oa env now (Inr c) w) =
         take (nat (workers_limit la))
           (drop (nat (workers_offset oa))
              (all_workers (workers_seen c) w (now - worker_timeout env)))
     \<and> int (length (snd (api_wallet_workers la oa env now (Inr c) w))) \<le> workers_limit la
     \<and> sorted_wrt (\<lambda>x y. x \<ge> y) (map snd (snd (api_wallet_workers la oa env now (Inr c) w)))
     \<and> (sqlite_int (workers_offset oa') \<longrightarrow>
          fst (api_wallet_workers la' oa' env now (Inr c) w) =
            fst (api_wallet_workers la oa env now (Inr c) w)))
   \<and> (failing c QCountWorkers \<or> failing c QSelectWorkers
        \<or> \<not> sqlite_int (now - worker_timeout env) \<or> \<not> sqlite_int (workers_offset oa) \<longrightarrow>
        api_wallet_workers la oa env now (Inr c) w = (0, []))
   \<and> api_wallet_workers la oa env now (Inl e) w = (0, [])
   \<and> mset (all_workers t w cutoff) =
       image_mset (\<lambda>r. (ws_worker r, case ws_last_seen r of None \<Rightarrow> 0 | Some x \<Rightarrow> x))
         (filter_mset (\<lambda>r. ws_wallet r = Some w \<and> ws_active r = 1 \<and>
                            (case ws_last_seen r of None \<Rightarrow> False | Some x \<Rightarrow> cutoff \<le> x))
                      (mset t))
   \<and> sorted_wrt (\<lambda>x y. x \<ge> y) (map snd (all_workers t w cutoff))
   \<and> worker_timeout (Num n) = n \<and> worker_timeout Missing = 300 \<and> worker_timeout Garbled = 300"
proof -
  let ?cut = "now - worker_timeout env"
  let ?all = "all_workers (workers_seen c) w ?cut"
  let ?cond = "\<lambda>r. ws_wallet r = Some w \<and> ws_active r = 1 \<and>
                    (case ws_last_seen r of None \<Rightarrow> False | Some x \<Rightarrow> ?cut \<le> x)"
  have lim: "0 \<le> workers_limit la"
    using workers_limit_pos[of la] by simp
  have bind: "sqlite_int (workers_limit l')" for l'
    by (cases l') (auto simp: workers_limit_def sqlite_int_def)
  have ok: "api_wallet_workers l' o' env now (Inr c) w =
              (sql_count_workers (workers_seen c) w ?cut,
               sql_select_workers (workers_seen c) w ?cut (workers_limit l') (workers_offset o'))"
    if "\<not> failing c QCountWorkers" "\<not> failing c QSelectWorkers" "sqlite_int ?cut"
       "sqlite_int (workers_offset o')" for l' o'
    using that bind[of l'] by (simp add: api_wallet_workers_def Let_def execute_def)
  have bad: "api_wallet_workers la oa env now (Inr c) w = (0, [])"
    if "failing c QCountWorkers \<or> failing c QSelectWorkers
        \<or> \<not> sqlite_int ?cut \<or> \<not> sqlite_int (workers_offset oa)"
    using that by (auto simp: api_wallet_workers_def Let_def execute_def)
  have down: "api_wallet_workers la oa env now (Inl e) w = (0, [])"
    by (simp add: api_wallet_workers_def Let_def)
  have cond: "worker_cond w ?cut = ?cond"
    by (rule ext) (simp add: worker_cond_def)
  have tmo: "worker_timeout (Num n) = n" "worker_timeout Missing = 300"
            "worker_timeout Garbled = 300"
    by (simp_all add: worker_timeout_def)
  have good:
    "fst (api_wallet_workers la oa env now (Inr c) w) =
         int (length (filter ?cond (workers_seen c)))
     \<and> fst (api_wallet_workers la oa env now (Inr c) w) = int (length ?all)
     \<and> snd (api_wallet_workers la oa env now (Inr c) w) =
         take (nat (workers_limit la)) (drop (nat (workers_offset oa)) ?all)
     \<and> int (length (snd (api_wallet_workers la oa env now (Inr c) w))) \<le> workers_limit la
     \<and> sorted_wrt (\<lambda>x y. x \<ge> y) (map snd (snd (api_wallet_workers la oa env now (Inr c) w)))
     \<and> (sqlite_int (workers_offset oa') \<longrightarrow>
          fst (api_wallet_workers la' oa' env now (Inr c) w) =
            fst (api_wallet_workers la oa env now (Inr c) w))"
    if h: "\<not> failing c QCountWorkers \<and> \<not> failing c QSelectWorkers
           \<and> sqlite_int ?cut \<and> sqlite_int (workers_offset oa)"
  proof -
    from h have h1: "\<not> failing c QCountWorkers" and h2: "\<not> failing c QSelectWorkers"
      and h3: "sqlite_int ?cut" and h4: "sqlite_int (workers_offset oa)"
      by simp_all
    have t1: "fst (api_wallet_workers la oa env now (Inr c) w) =
                sql_count_workers (workers_seen c) w ?cut"
      by (simp add: ok[OF h1 h2 h3 h4])
    have t2: "fst (api_wallet_workers la' oa' env now (Inr c) w) =
                sql_count_workers (workers_seen c) w ?cut"
      if "sqlite_int (workers_offset oa')"
      by (simp add: ok[OF h1 h2 h3 that])
    have s: "snd (api_wallet_workers la oa env now (Inr c) w) =
               take (nat (workers_limit la)) (drop (nat (workers_offset oa)) ?all)"
      by (simp add: ok[OF h1 h2 h3 h4] select_page[OF lim])
    have len: "int (length (snd (api_wallet_workers la oa env now (Inr c) w))) \<le> workers_limit la"
      unfolding s using lim by simp
    have desc: "sorted_wrt (\<lambda>x y. x \<ge> y)
                  (map snd (snd (api_wallet_workers la oa env now (Inr c) w)))"
      unfolding s by (rule page_desc)
    have cnt: "sql_count_workers (workers_seen c) w ?cut = int (length (filter ?cond (workers_seen c)))"
      by (simp only: sql_count_workers_def cond)
    have cnt': "sql_count_workers (workers_seen c) w ?cut = int (length ?all)"
      by (simp only: length_all_workers)
    from t1 t2 s len desc cnt cnt' show ?thesis
      by simp
  qed
  from good bad down tmo all_workers_mset[of t w cutoff] all_workers_desc[of t w cutoff]
  show ?thesis by blast
qed

theorem api_wallet_workers_page_witness:
  "\<not> failing rigs_conn QCountWorkers \<and> \<not> failing rigs_conn QSelectWorkers
   \<and> sqlite_int (1700000000 - worker_timeout Missing) \<and> sqlite_int (workers_offset (Num 1))
   \<and> sqlite_int (workers_offset Missing)
   \<and> fst (api_wallet_workers (Num 2) (Num 1) Missing 1700000000 (Inr rigs_conn) ''w1'') = 3
   \<and> snd (api_wallet_workers (Num 2) (Num 1) Missing 1700000000 (Inr rigs_conn) ''w1'')
       = [(''rig0'', 1699999990), (''rig3'', 1699999980)]
   \<and> fst (api_wallet_workers (Num 1) Missing Missing 1700000000 (Inr rigs_conn) ''w1'') = 3
   \<and> failing broken_conn QCountWorkers
   \<and> api_wallet_workers (Num 2) (Num 1) Missing 1700000000 (Inr broken_conn) ''w1'' = (0, [])
   \<and> \<not> sqlite_int (workers_offset (Num 9223372036854775808))
   \<and> api_wallet_workers (Num 2) (Num 9223372036854775808) Missing 1700000000 (Inr rigs_conn)
        ''w1'' = (0, [])
   \<and> \<not> sqlite_int (1700000000 - worker_timeout (Num (- 9223372036854775808)))
   \<and> api_wallet_workers (Num 2) (Num 1) (Num (- 9223372036854775808)) 1700000000
        (Inr rigs_conn) ''w1'' = (0, [])"
proof -
  have ok: "\<not> failing rigs_conn QCountWorkers \<and> \<not> failing rigs_conn QSelectWorkers"
    by (simp add: rigs_conn_def no_fault_def)
  have bad: "failing broken_conn QCountWorkers"
    by (simp add: broken_conn_def all_fault_def)
  have lim: "workers_limit (Num 2) = 2" "workers_offset (Num 1) = 1"
    by (simp_all add: workers_limit_def workers_offset_def)
  have fits: "sqlite_int (1700000000 - worker_timeout Missing)"
             "sqlite_int (workers_offset (Num 1))" "sqlite_int (workers_offset Missing)"
    by (simp_all add: sqlite_int_def worker_timeout_def workers_offset_def)
  have big: "\<not> sqlite_int (workers_offset (Num 9223372036854775808))"
            "\<not> sqlite_int (1700000000 - worker_timeout (Num (- 9223372036854775808)))"
    by (simp_all add: sqlite_int_def worker_timeout_def workers_offset_def)
  have listing: "all_workers (workers_seen rigs_conn) ''w1'' (1700000000 - worker_timeout Missing)
                   = [(''rig1'', 1699999995), (''rig0'', 1699999990), (''rig3'', 1699999980)]"
    by (simp add: all_workers_def rigs_conn_def worker_cols_def worker_timeout_def)
  from api_wallet_workers_page
         [of rigs_conn 1700000000 Missing "Num 1" "Num 2" "''w1''" Missing "Num 1" DbError "[]" 0 0]
       ok lim fits listing
  have page: "fst (api_wallet_workers (Num 2) (Num 1) Missing 1700000000 (Inr rigs_conn) ''w1'') = 3"
       "snd (api_wallet_workers (Num 2) (Num 1) Missing 1700000000 (Inr rigs_conn) ''w1'')
          = [(''rig0'', 1699999990), (''rig3'', 1699999980)]"
       "fst (api_wallet_workers (Num 1) Missing Missing 1700000000 (Inr rigs_conn) ''w1'') = 3"
    by simp_all
  from api_wallet_workers_page
         [of broken_conn 1700000000 Missing "Num 1" "Num 2" "''w1''" Missing "Num 1" DbError "[]" 0 0]
       bad
  have down: "api_wallet_workers (Num 2) (Num 1) Missing 1700000000 (Inr broken_conn) ''w1''
                = (0, [])"
    by blast
  from api_wallet_workers_page
         [of rigs_conn 1700000000 Missing "Num 9223372036854775808" "Num 2" "''w1''" Missing
             "Num 1" DbError "[]" 0 0] big
  have over: "api_wallet_workers (Num 2) (Num 9223372036854775808) Missing 1700000000
                (Inr rigs_conn) ''w1'' = (0, [])"
    by blast
  from api_wallet_workers_page
         [of rigs_conn 1700000000 "Num (- 9223372036854775808)" "Num 1" "Num 2" "''w1''" Missing
             "Num 1" DbError "[]" 0 0] big
  have far: "api_wallet_workers (Num 2) (Num 1) (Num (- 9223372036854775808)) 1700000000
                (Inr rigs_conn) ''w1'' = (0, [])"
    by blast
  from ok bad fits big page down over far show ?thesis by simp
qed

subsection \<open>C9: wallet detail\<close>

lemma find_wallet_row_find:
  "find_wallet_row users w = List.find (\<lambda>u. py_or (wallet u) (address u) = Some w) users"
  by (induction users) simp_all

lemma wallet_or_address:
  "py_or (wallet u) (address u) =
     (if wallet u = None \<or> wallet u = Some [] then address u else wallet u)"
  by (cases "wallet u") (simp_all add: py_or_def)

text \<open>
  C9: \<^verbatim>\<open>api_user\<close> compares the given address, by equality of strings, with each record's
  wallet/address field and returns the first record of the snapshot that matches; when no
  record matches it answers 404, and never a record. The wallet/address field of a record
  is its \<^verbatim>\<open>wallet\<close> key, and its \<^verbatim>\<open>address\<close> key when \<^verbatim>\<open>wallet\<close> is missing or empty: a
  record that carries only an address is found by that address, and a record with a
  non-empty \<^verbatim>\<open>wallet\<close> is found by that value and by no other.
\<close>

theorem api_user_first_exact_match:
  "py_or (wallet u) (address u) =
     (if wallet u = None \<or> wallet u = Some [] then address u else wallet u)
   \<and> api_user users w =
       (case List.find (\<lambda>u. (if wallet u = None \<or> wallet u = Some [] then address u
                               else wallet u) = Some w) users of
          None \<Rightarrow> Inl NotFound
        | Some u \<Rightarrow> Inr u)
   \<and> ((\<forall>v \<in> set pre. (if wallet v = None \<or> wallet v = Some [] then address v else wallet v)
                          \<noteq> Some w)
        \<and> (if wallet u = None \<or> wallet u = Some [] then address u else wallet u) = Some w
      \<longrightarrow> api_user (pre @ u # post) w = Inr u)
   \<and> (api_user users w = Inl NotFound
        \<longleftrightarrow> (\<forall>v \<in> set users. (if wallet v = None \<or> wallet v = Some [] then address v
                                  else wallet v) \<noteq> Some w))
   \<and> ((wallet u = None \<or> wallet u = Some []) \<and> address u = Some w
        \<longrightarrow> api_user (u # post) w = Inr u)
   \<and> (wallet u = Some a \<and> a \<noteq> [] \<longrightarrow> (api_user [u] w = Inr u \<longleftrightarrow> a = w))"
proof -
  let ?key = "\<lambda>u. if wallet u = None \<or> wallet u = Some [] then address u else wallet u"
  let ?P = "\<lambda>u. ?key u = Some w"
  have k: "py_or (wallet u) (address u) = ?key u" for u
    by (rule wallet_or_address)
  have a: "api_user users w = (case List.find ?P users of None \<Rightarrow> Inl NotFound | Some u \<Rightarrow> Inr u)"
    for users
    by (simp add: api_user_def find_wallet_row_find k)
  have b: "api_user (pre @ u # post) w = Inr u" if "\<forall>v \<in> set pre. \<not> ?P v" "?P u"
  proof -
    from that have "List.find ?P (pre @ u # post) = Some u"
      by (induction pre) simp_all
    then show ?thesis by (simp add: a)
  qed
  have c: "api_user users w = Inl NotFound \<longleftrightarrow> (\<forall>v \<in> set users. \<not> ?P v)"
  proof (cases "List.find ?P users")
    case None
    then have "\<forall>v \<in> set users. \<not> ?P v"
      by (simp add: find_None_iff)
    with None show ?thesis by (simp add: a)
  next
    case (Some x)
    then have "x \<in> set users" "?P x"
      by (auto simp: find_Some_iff)
    then have "\<not> (\<forall>v \<in> set users. \<not> ?P v)"
      by blast
    moreover from Some have "api_user users w = Inr x"
      by (simp add: a)
    ultimately show ?thesis by simp
  qed
  have d: "api_user (u # post) w = Inr u"
    if "(wallet u = None \<or> wallet u = Some []) \<and> address u = Some w"
    using that by (auto simp: a)
  have e: "api_user [u] w = Inr u \<longleftrightarrow> a = w" if "wallet u = Some a \<and> a \<noteq> []"
    using that by (auto simp: a)
  from k[of u] a[of users] b c d e show ?thesis by blast
qed

theorem api_user_first_exact_match_witness:
  "api_user [idle_row, alias_row, blank_row, split_row] ''w3'' = Inr alias_row
   \<and> wallet alias_row = None \<and> address alias_row = Some ''w3''
   \<and> api_user [idle_row, alias_row, blank_row, split_row] ''w4'' = Inr blank_row
   \<and> wallet blank_row = Some [] \<and> address blank_row = Some ''w4''
   \<and> api_user [idle_row, alias_row, blank_row, split_row] ''w5'' = Inr split_row
   \<and> wallet split_row = Some ''w5'' \<and> address split_row = Some ''a5''
   \<and> api_user [idle_row, alias_row, blank_row, split_row] ''a5'' = Inl NotFound
   \<and> api_user [idle_row, alias_row, blank_row, split_row] ''W5'' = Inl NotFound
   \<and> api_user ([idle_row] @ busy_row # [busy_row\<lparr>worker := Some ''second''\<rparr>]) ''w2''
       = Inr busy_row
   \<and> api_user (alias_row # [alias_row\<lparr>worker := Some ''second''\<rparr>]) ''w3'' = Inr alias_row
   \<and> api_user [split_row] ''w5'' = Inr split_row
   \<and> api_user [split_row] ''a5'' \<noteq> Inr split_row"
proof -
  let ?users = "[idle_row, alias_row, blank_row, split_row]"
  have f: "wallet idle_row = Some ''w1''" "address idle_row = Some ''w1''"
          "wallet busy_row = Some ''w2''" "address busy_row = Some ''w2''"
          "wallet alias_row = None" "address alias_row = Some ''w3''"
          "wallet blank_row = Some []" "address blank_row = Some ''w4''"
          "wallet split_row = Some ''w5''" "address split_row = Some ''a5''"
    by (simp_all add: idle_row_def busy_row_def alias_row_def blank_row_def split_row_def)
  from api_user_first_exact_match [of alias_row ?users "''w3''" "[idle_row]" "[blank_row, split_row]" "[]"] f
  have w3: "api_user ?users ''w3'' = Inr alias_row"
    by simp
  from api_user_first_exact_match [of blank_row ?users "''w4''" "[idle_row, alias_row]" "[split_row]" "[]"] f
  have w4: "api_user ?users ''w4'' = Inr blank_row"
    by simp
  from api_user_first_exact_match [of split_row ?users "''w5''" "[idle_row, alias_row, blank_row]" "[]" "''w5''"] f
  have w5: "api_user ?users ''w5'' = Inr split_row"
    by simp
  from api_user_first_exact_match [of split_row ?users "''a5''" "[]" "[]" "''w5''"] f
  have a5: "api_user ?users ''a5'' = Inl NotFound"
    by simp
  from api_user_first_exact_match [of split_row ?users "''W5''" "[]" "[]" "''w5''"] f
  have W5: "api_user ?users ''W5'' = Inl NotFound"
    by simp
  from api_user_first_exact_match
         [of busy_row "[]" "''w2''" "[idle_row]" "[busy_row\<lparr>worker := Some ''second''\<rparr>]" "''w2''"] f
  have first: "api_user ([idle_row] @ busy_row # [busy_row\<lparr>worker := Some ''second''\<rparr>]) ''w2''
                 = Inr busy_row"
    by simp
  from api_user_first_exact_match
         [of alias_row "[]" "''w3''" "[]" "[alias_row\<lparr>worker := Some ''second''\<rparr>]" "[]"] f
  have only: "api_user (alias_row # [alias_row\<lparr>worker := Some ''second''\<rparr>]) ''w3'' = Inr alias_row"
    by simp
  from api_user_first_exact_match [of split_row "[]" "''w5''" "[]" "[]" "''w5''"] f
  have s1: "api_user [split_row] ''w5'' = Inr split_row"
    by simp
  from api_user_first_exact_match [of split_row "[]" "''a5''" "[]" "[]" "''w5''"] f
  have s2: "api_user [split_row] ''a5'' \<noteq> Inr split_row"
    by simp
  from f w3 w4 w5 a5 W5 first only s1 s2 show ?thesis by simp
qed

subsection \<open>C10: a last-seen time of zero\<close>









end
